theory Spec2Isabelle
  imports Complex_Main "HOL-Library.Sublist"
begin

section \<open>Values of the program\<close>

text \<open>
  The dashboard is TypeScript running in a browser. A JavaScript number is modelled as a
  \<^typ>\<open>real\<close>: the arithmetic of the overlay (one division, a few multiplications)
  is read exactly, without the rounding of IEEE doubles. An optional property
  (\<^verbatim>\<open>x?: number\<close>) is an \<^typ>\<open>'a option\<close>, \<^term>\<open>None\<close> being
  \<^verbatim>\<open>undefined\<close>.
\<close>

type_synonym number = real

text \<open>\<^verbatim>\<open>a ?? b\<close>: the left operand unless it is \<^verbatim>\<open>undefined\<close>.\<close>

definition nullish :: "'a option \<Rightarrow> 'a option \<Rightarrow> 'a option" where
  "nullish a b = (case a of Some v \<Rightarrow> Some v | None \<Rightarrow> b)"

text \<open>\<^verbatim>\<open>a || b\<close> on numbers: the left operand unless it is falsy, that is \<open>0\<close>.\<close>

definition js_or :: "number \<Rightarrow> number \<Rightarrow> number" where
  "js_or a b = (if a = 0 then b else a)"

text \<open>
  \<^verbatim>\<open>a * b\<close> where the left operand may be \<^verbatim>\<open>undefined\<close>: it is then coerced to
  \<^verbatim>\<open>NaN\<close> and so is the product; \<^term>\<open>None\<close> stands for \<^verbatim>\<open>NaN\<close> in the result.
\<close>

definition js_times :: "number option \<Rightarrow> number \<Rightarrow> number option" where
  "js_times a b = (case a of None \<Rightarrow> None | Some v \<Rightarrow> Some (v * b))"

text \<open>Reading an array by index: out of range gives \<^verbatim>\<open>undefined\<close>.\<close>

definition at_index :: "'a list \<Rightarrow> nat \<Rightarrow> 'a option" where
  "at_index a i = (if i < length a then Some (a ! i) else None)"

text \<open>Decimal digits of a natural number, as a template literal prints an integer.\<close>

definition digit :: "nat \<Rightarrow> char" where
  "digit n = ''0123456789'' ! (n mod 10)"

fun string_of_nat :: "nat \<Rightarrow> string" where
  "string_of_nat n =
     (if n < 10 then [digit n] else string_of_nat (n div 10) @ [digit (n mod 10)])"

declare string_of_nat.simps [simp del]

text \<open>
  \<^verbatim>\<open>v.toFixed(0)\<close>: the sign, then the integer nearest to the magnitude, the larger one
  on a tie. This is the rounding of the exact real: the code rounds the double it has
  computed, which can differ in the last digit (0.145 * 100 is just below 14.5 as a
  double), and it prints magnitudes of \<open>10\<^sup>2\<^sup>1\<close> and more with an exponent, where
  they are printed in full here. Only \<open>toFixed0 0\<close> is used in what follows.
\<close>

definition toFixed0 :: "number \<Rightarrow> string" where
  "toFixed0 v =
     (if v < 0 then ''-'' @ string_of_nat (nat \<lfloor>- v + 1 / 2\<rfloor>)
      else string_of_nat (nat \<lfloor>v + 1 / 2\<rfloor>))"

section \<open>ImageOverlay.tsx\<close>

subsection \<open>The interfaces\<close>

text \<open>
  \<^verbatim>\<open>interface Detection\<close>: every property is optional. The property names carry the
  prefix \<open>d_\<close>.
\<close>

record Detection =
  d_bbox :: "number list option"
  d_bounding_box :: "number list option"
  d_coordinates :: "number list option"
  d_x :: "number option"
  d_y :: "number option"
  d_width :: "number option"
  d_height :: "number option"
  d_w :: "number option"
  d_h :: "number option"
  d_label :: "string option"
  d_class :: "string option"
  d_class_name :: "string option"
  d_confidence :: "number option"
  d_score :: "number option"

text \<open>
  \<^verbatim>\<open>interface BoundingBox\<close>. The interface declares the four coordinates as numbers,
  but the array destructuring in \<^verbatim>\<open>normalizeBoundingBoxes\<close> stores \<^verbatim>\<open>undefined\<close> in
  them when the array is short, so they are optional here as well.
\<close>

record BoundingBox =
  box_x :: "number option"
  box_y :: "number option"
  box_width :: "number option"
  box_height :: "number option"
  box_label :: "string option"
  box_confidence :: "number option"

text \<open>The two \<^verbatim>\<open>{ width, height }\<close> state objects of the component.\<close>

record Dimensions =
  dim_width :: number
  dim_height :: number

subsection \<open>normalizeBoundingBoxes\<close>

text \<open>
  \<^verbatim>\<open>[x, y, width, height] = a\<close>: positions 0 to 3 of the array, \<^verbatim>\<open>undefined\<close> where
  the array has no such position; further elements are not read.
\<close>

definition destructure4 ::
  "number list \<Rightarrow> number option \<times> number option \<times> number option \<times> number option"
  where
  "destructure4 a = (at_index a 0, at_index a 1, at_index a 2, at_index a 3)"

text \<open>
  The body of the \<^verbatim>\<open>map\<close> callback. A value of type \<^verbatim>\<open>number[]\<close> is truthy and
  an array, so each guard \<^verbatim>\<open>d.bbox && Array.isArray(d.bbox)\<close> asks whether the property
  is there.
\<close>

definition normalizeBoundingBox :: "Detection \<Rightarrow> BoundingBox" where
  "normalizeBoundingBox d =
     (let (x, y, width, height) =
        (case d_bbox d of
           Some a \<Rightarrow> destructure4 a
         | None \<Rightarrow>
        (case d_bounding_box d of
           Some a \<Rightarrow> destructure4 a
         | None \<Rightarrow>
        (case d_coordinates d of
           Some a \<Rightarrow> destructure4 a
         | None \<Rightarrow>
             (nullish (d_x d) (Some 0),
              nullish (d_y d) (Some 0),
              nullish (nullish (d_width d) (d_w d)) (Some 0),
              nullish (nullish (d_height d) (d_h d)) (Some 0)))))
      in \<lparr>box_x = x, box_y = y, box_width = width, box_height = height,
          box_label = nullish (nullish (d_label d) (d_class d)) (d_class_name d),
          box_confidence = nullish (d_confidence d) (d_score d)\<rparr>)"

definition normalizeBoundingBoxes :: "Detection list \<Rightarrow> BoundingBox list" where
  "normalizeBoundingBoxes detections = map normalizeBoundingBox detections"

text \<open>The object \<^verbatim>\<open>{}\<close>: a detection with no property at all.\<close>

definition empty_detection :: Detection where
  "empty_detection =
     \<lparr>d_bbox = None, d_bounding_box = None, d_coordinates = None,
      d_x = None, d_y = None, d_width = None, d_height = None, d_w = None, d_h = None,
      d_label = None, d_class = None, d_class_name = None,
      d_confidence = None, d_score = None\<rparr>"

text \<open>
  The precedence rules in the words of the specification. \<open>first_present\<close> is the first
  field of a list that is there; \<open>or_default\<close> reads a field with a default.
\<close>

fun first_present :: "'a option list \<Rightarrow> 'a option" where
  "first_present [] = None"
| "first_present (None # fs) = first_present fs"
| "first_present (Some v # fs) = Some v"

definition or_default :: "'a option \<Rightarrow> 'a \<Rightarrow> 'a" where
  "or_default a v = (case a of Some u \<Rightarrow> u | None \<Rightarrow> v)"

type_synonym quad = "number option \<times> number option \<times> number option \<times> number option"

definition box_policy :: "Detection \<Rightarrow> quad" where
  "box_policy d =
     (case first_present [d_bbox d, d_bounding_box d, d_coordinates d] of
        Some a \<Rightarrow> (at_index a 0, at_index a 1, at_index a 2, at_index a 3)
      | None \<Rightarrow>
          (Some (or_default (d_x d) 0),
           Some (or_default (d_y d) 0),
           Some (or_default (d_width d) (or_default (d_w d) 0)),
           Some (or_default (d_height d) (or_default (d_h d) 0))))"

text \<open>The four coordinates of a box, in the order \<open>x\<close>, \<open>y\<close>, \<open>width\<close>, \<open>height\<close>.\<close>

definition geometry :: "BoundingBox \<Rightarrow> quad" where
  "geometry box = (box_x box, box_y box, box_width box, box_height box)"

subsection \<open>Scaling\<close>

text \<open>
  \<^verbatim>\<open>scaleX = imageDimensions.width / (naturalDimensions.width || 1)\<close>, and
  \<^verbatim>\<open>scaleY\<close> alike. The divisor is a definition of its own, so that it can be
  spoken about.
\<close>

definition divisorX :: "Dimensions \<Rightarrow> number" where
  "divisorX naturalDimensions = js_or (dim_width naturalDimensions) 1"

definition divisorY :: "Dimensions \<Rightarrow> number" where
  "divisorY naturalDimensions = js_or (dim_height naturalDimensions) 1"

definition scaleX :: "Dimensions \<Rightarrow> Dimensions \<Rightarrow> number" where
  "scaleX imageDimensions naturalDimensions =
     dim_width imageDimensions / divisorX naturalDimensions"

definition scaleY :: "Dimensions \<Rightarrow> Dimensions \<Rightarrow> number" where
  "scaleY imageDimensions naturalDimensions =
     dim_height imageDimensions / divisorY naturalDimensions"

text \<open>The four scaled values computed for each box.\<close>

record ScaledBox =
  scaledX :: "number option"
  scaledY :: "number option"
  scaledWidth :: "number option"
  scaledHeight :: "number option"

definition project :: "Dimensions \<Rightarrow> Dimensions \<Rightarrow> BoundingBox \<Rightarrow> ScaledBox" where
  "project imageDimensions naturalDimensions box =
     \<lparr>scaledX = js_times (box_x box) (scaleX imageDimensions naturalDimensions),
      scaledY = js_times (box_y box) (scaleY imageDimensions naturalDimensions),
      scaledWidth = js_times (box_width box) (scaleX imageDimensions naturalDimensions),
      scaledHeight = js_times (box_height box) (scaleY imageDimensions naturalDimensions)\<rparr>"

subsection \<open>Colours and label chips\<close>

definition COLORS :: "string list" where
  "COLORS =
     [''hsl(25, 100%, 50%)'',
      ''hsl(142, 76%, 45%)'',
      ''hsl(200, 100%, 50%)'',
      ''hsl(280, 100%, 60%)'',
      ''hsl(45, 100%, 50%)'']"

definition color_at :: "nat \<Rightarrow> string" where
  "color_at index = COLORS ! (index mod length COLORS)"

text \<open>
  The label chip: its background rectangle has the width
  \<^verbatim>\<open>Math.max(80, (box.label?.length ?? 0) * 8 + 50)\<close>, its text is
  \<^verbatim>\<open>box.label ?? `Detection ${index + 1}`\<close> followed, when the confidence is not
  \<^verbatim>\<open>undefined\<close>, by a space, \<^verbatim>\<open>(box.confidence * 100).toFixed(0)\<close> and a percent sign.
\<close>

record Chip =
  chip_width :: nat
  chip_text :: string

definition chip_shown :: "BoundingBox \<Rightarrow> bool" where
  "chip_shown box =
     ((case box_label box of None \<Rightarrow> False | Some l \<Rightarrow> l \<noteq> []) \<or> box_confidence box \<noteq> None)"

definition chip_of :: "nat \<Rightarrow> BoundingBox \<Rightarrow> Chip" where
  "chip_of index box =
     \<lparr>chip_width = max 80 ((case box_label box of None \<Rightarrow> 0 | Some l \<Rightarrow> length l) * 8 + 50),
      chip_text =
        (case box_label box of
           Some l \<Rightarrow> l
         | None \<Rightarrow> ''Detection '' @ string_of_nat (index + 1)) @
        (case box_confidence box of
           None \<Rightarrow> []
         | Some c \<Rightarrow> '' '' @ toFixed0 (c * 100) @ ''%'')\<rparr>"

text \<open>
  What the component draws for the box at position \<open>index\<close>: the dashed rectangle at the
  scaled position, in the colour of the index, and the chip when there is one. (The four
  corner accents repeat the same colour and coordinates and are left out.)
\<close>

record Annotation =
  ann_color :: string
  ann_rect :: ScaledBox
  ann_chip :: "Chip option"

definition annotate :: "Dimensions \<Rightarrow> Dimensions \<Rightarrow> nat \<Rightarrow> BoundingBox \<Rightarrow> Annotation" where
  "annotate imageDimensions naturalDimensions index box =
     \<lparr>ann_color = color_at index,
      ann_rect = project imageDimensions naturalDimensions box,
      ann_chip = (if chip_shown box then Some (chip_of index box) else None)\<rparr>"

text \<open>
  The component body: \<^verbatim>\<open>boxes = detections ? normalizeBoundingBoxes(detections) : []\<close>,
  then \<^verbatim>\<open>boxes.map((box, index) => ...)\<close>.
\<close>

definition ImageOverlay ::
  "Dimensions \<Rightarrow> Dimensions \<Rightarrow> Detection list option \<Rightarrow> Annotation list" where
  "ImageOverlay imageDimensions naturalDimensions detections =
     (let boxes = (case detections of Some ds \<Rightarrow> normalizeBoundingBoxes ds | None \<Rightarrow> [])
      in map (\<lambda>(index, box). annotate imageDimensions naturalDimensions index box)
           (enumerate 0 boxes))"

section \<open>The App component\<close>

subsection \<open>The response payload and getDetections\<close>

text \<open>
  The body of a response is whatever \<^verbatim>\<open>res.json()\<close> parsed; the interface
  \<^verbatim>\<open>AnalysisResponse\<close> leaves every property \<^verbatim>\<open>unknown\<close>. It is a JavaScript value:
  an object is the list of its own properties, a name being looked up from the front.
\<close>

datatype jsval =
    JUndefined
  | JNull
  | JBool bool
  | JNumber number
  | JString string
  | JArray "jsval list"
  | JObject "(string \<times> jsval) list"

fun truthy :: "jsval \<Rightarrow> bool" where
  "truthy JUndefined = False"
| "truthy JNull = False"
| "truthy (JBool b) = b"
| "truthy (JNumber n) = (n \<noteq> 0)"
| "truthy (JString s) = (s \<noteq> [])"
| "truthy (JArray a) = True"
| "truthy (JObject kvs) = True"

fun isArray :: "jsval \<Rightarrow> bool" where
  "isArray (JArray a) = True"
| "isArray v = False"

text \<open>
  \<^verbatim>\<open>v.name\<close> for the four names \<^verbatim>\<open>getDetections\<close> reads: an own property of an
  object, \<^verbatim>\<open>undefined\<close> on an array and on a primitive value. (On \<^verbatim>\<open>null\<close> the
  access would throw; \<^verbatim>\<open>getDetections\<close> returns before it reads a property of a
  falsy value.)
\<close>

fun get_prop :: "jsval \<Rightarrow> string \<Rightarrow> jsval" where
  "get_prop (JObject kvs) name = (case map_of kvs name of Some v \<Rightarrow> v | None \<Rightarrow> JUndefined)"
| "get_prop v name = JUndefined"

text \<open>\<^verbatim>\<open>getDetections\<close>, with the state variable \<^verbatim>\<open>response\<close> as its argument.\<close>

definition getDetections :: "jsval \<Rightarrow> jsval" where
  "getDetections response =
     (if \<not> truthy response then JNull
      else if isArray (get_prop response ''detections'') then get_prop response ''detections''
      else if isArray (get_prop response ''predictions'') then get_prop response ''predictions''
      else if isArray (get_prop response ''results'') then get_prop response ''results''
      else if isArray (get_prop response ''boxes'') then get_prop response ''boxes''
      else if isArray response then response
      else JNull)"

text \<open>
  The policy in the words of the specification: the first array among the four named
  fields, in this order, else the payload itself if it is an array, else absent.
\<close>

definition resolve_policy :: "jsval \<Rightarrow> jsval" where
  "resolve_policy result =
     (case find isArray
             (map (get_prop result) [''detections'', ''predictions'', ''results'', ''boxes''])
      of Some a \<Rightarrow> a
       | None \<Rightarrow> (if isArray result then result else JNull))"

subsection \<open>State, the browser's object URLs and the request\<close>

datatype File = File string

type_synonym url = nat

text \<open>
  The five state variables of \<^verbatim>\<open>App\<close>, and beside them what the handlers act on in the
  browser: the object URLs (\<open>url_next\<close> is the next URL \<^verbatim>\<open>URL.createObjectURL\<close> hands
  out, \<open>url_live\<close> the URLs created and not yet revoked) and the number of requests sent
  and not yet settled.
\<close>

record Page =
  imageFile :: "File option"
  previewUrl :: "url option"
  isAnalyzing :: bool
  response :: jsval
  error :: "string option"
  url_next :: nat
  url_live :: "url set"
  pending :: nat

definition initial :: Page where
  "initial =
     \<lparr>imageFile = None, previewUrl = None, isAnalyzing = False, response = JNull,
      error = None, url_next = 0, url_live = {}, pending = 0\<rparr>"

definition createObjectURL :: "Page \<Rightarrow> url \<times> Page" where
  "createObjectURL s =
     (url_next s, s\<lparr>url_next := Suc (url_next s), url_live := insert (url_next s) (url_live s)\<rparr>)"

definition revokeObjectURL :: "url \<Rightarrow> Page \<Rightarrow> Page" where
  "revokeObjectURL u s = s\<lparr>url_live := url_live s - {u}\<rparr>"

text \<open>
  What a \<^verbatim>\<open>throw\<close> or a rejected promise carries: an \<^verbatim>\<open>Error\<close> with its message, or
  a value that is not an \<^verbatim>\<open>Error\<close>.
\<close>

datatype thrown = Error string | NonError

text \<open>
  A response of \<^verbatim>\<open>fetch\<close>: its status code and what \<^verbatim>\<open>res.text()\<close> and
  \<^verbatim>\<open>res.json()\<close> settle with. \<^verbatim>\<open>res.ok\<close> is true for the status codes 200 to 299.
\<close>

record Response =
  res_status :: nat
  res_text :: "thrown + string"
  res_json :: "thrown + jsval"

definition res_ok :: "Response \<Rightarrow> bool" where
  "res_ok res = (200 \<le> res_status res \<and> res_status res \<le> 299)"

datatype fetch_result = Rejected thrown | Resolved Response

text \<open>
  The \<^verbatim>\<open>try\<close> block of \<^verbatim>\<open>handleImageUpload\<close> once \<^verbatim>\<open>fetch\<close> has settled: what it
  throws (\<open>Inl\<close>) or the parsed data it reaches \<^verbatim>\<open>setResponse\<close> with (\<open>Inr\<close>).
\<close>

definition try_block :: "fetch_result \<Rightarrow> thrown + jsval" where
  "try_block r =
     (case r of
        Rejected e \<Rightarrow> Inl e
      | Resolved res \<Rightarrow>
          if \<not> res_ok res then
            (case res_text res of
               Inl e \<Rightarrow> Inl e
             | Inr errorText \<Rightarrow>
                 Inl (Error (''HTTP '' @ string_of_nat (res_status res) @ '': '' @ errorText)))
          else res_json res)"

text \<open>\<^verbatim>\<open>err instanceof Error ? err.message : "Unknown error occurred"\<close>\<close>

definition message_of :: "thrown \<Rightarrow> string" where
  "message_of err = (case err of Error m \<Rightarrow> m | NonError \<Rightarrow> ''Unknown error occurred'')"

text \<open>
  \<^verbatim>\<open>handleImageUpload\<close> is asynchronous. Its first part runs when the handler is
  called, up to the \<^verbatim>\<open>await fetch\<close>; its second part runs when the request has settled
  and ends with the \<^verbatim>\<open>finally\<close> block. Neither part reads the state.
\<close>

definition handleImageUpload_start :: "File \<Rightarrow> Page \<Rightarrow> Page" where
  "handleImageUpload_start file s =
     (let (u, s1) = createObjectURL s
      in s1\<lparr>imageFile := Some file, previewUrl := Some u, error := None, response := JNull,
            isAnalyzing := True, pending := Suc (pending s1)\<rparr>)"

definition handleImageUpload_settle :: "fetch_result \<Rightarrow> Page \<Rightarrow> Page" where
  "handleImageUpload_settle r s =
     (case try_block r of
        Inr data \<Rightarrow> s\<lparr>response := data\<rparr>
      | Inl err \<Rightarrow> s\<lparr>error := Some (message_of err)\<rparr>)
     \<lparr>isAnalyzing := False, pending := pending s - 1\<rparr>"

definition handleClear :: "Page \<Rightarrow> Page" where
  "handleClear s =
     (case previewUrl s of Some u \<Rightarrow> revokeObjectURL u s | None \<Rightarrow> s)
     \<lparr>imageFile := None, previewUrl := None, response := JNull, error := None\<rparr>"

text \<open>
  The message a response with a non-success status leaves behind: built from the status
  code and the body text or, if the body cannot be read, the message of that failure.
\<close>

definition failure_message :: "Response \<Rightarrow> string" where
  "failure_message res =
     (case res_text res of
        Inl e \<Rightarrow> message_of e
      | Inr errorText \<Rightarrow> ''HTTP '' @ string_of_nat (res_status res) @ '': '' @ errorText)"

subsection \<open>The pipeline states\<close>

text \<open>
  The states of the specification, read off the state variables: uploading while
  \<^verbatim>\<open>isAnalyzing\<close> is set, failed when an error message is stored, succeeded when a
  response is stored.
\<close>

datatype PipelineState = Idle | Uploading | Succeeded jsval | Failed string

definition pipeline_state :: "Page \<Rightarrow> PipelineState" where
  "pipeline_state s =
     (if isAnalyzing s then Uploading
      else case error s of
             Some m \<Rightarrow> Failed m
           | None \<Rightarrow> (if response s = JNull then Idle else Succeeded (response s)))"

subsection \<open>What the rendered page lets happen\<close>

text \<open>
  \<^verbatim>\<open>App\<close> renders either \<^verbatim>\<open>ImageOverlay\<close> with a clear button (when
  \<^verbatim>\<open>previewUrl\<close> is set and there are detections) or \<^verbatim>\<open>UploadZone\<close>.
  \<^verbatim>\<open>UploadZone\<close> renders its file input and drop target only when \<^verbatim>\<open>previewUrl\<close> is
  empty; with a preview it renders the image and a clear button. So a file can be handed
  to \<^verbatim>\<open>handleImageUpload\<close> only while no preview is held, and \<^verbatim>\<open>handleClear\<close> can be
  triggered only while one is. A request settles at any time after it was sent.
\<close>

datatype event = Upload File | Settle fetch_result | Clear

fun enabled :: "Page \<Rightarrow> event \<Rightarrow> bool" where
  "enabled s (Upload file) = (previewUrl s = None)"
| "enabled s (Settle r) = (0 < pending s)"
| "enabled s Clear = (previewUrl s \<noteq> None)"

fun fire :: "event \<Rightarrow> Page \<Rightarrow> Page" where
  "fire (Upload file) s = handleImageUpload_start file s"
| "fire (Settle r) s = handleImageUpload_settle r s"
| "fire Clear s = handleClear s"

fun run :: "Page \<Rightarrow> event list \<Rightarrow> Page option" where
  "run s [] = Some s"
| "run s (e # es) = (if enabled s e then run (fire e s) es else None)"

text \<open>
  The object URLs that are still registered are at most the one the page displays.
\<close>

definition only_preview_live :: "Page \<Rightarrow> bool" where
  "only_preview_live s = (url_live s \<subseteq> set_option (previewUrl s))"

section \<open>Properties\<close>

lemma length_COLORS: "length COLORS = 5"
  by (simp add: COLORS_def)

lemma distinct_COLORS: "distinct COLORS"
  by (simp add: COLORS_def)

subsection \<open>getDetections\<close>

lemma isArray_get_prop_truthy: "isArray (get_prop r name) \<Longrightarrow> truthy r"
  by (cases r) simp_all

lemma isArray_truthy: "isArray r \<Longrightarrow> truthy r"
  by (cases r) simp_all

text \<open>
  C2. \<^verbatim>\<open>getDetections\<close> follows the policy: the first array among
  \<open>detections\<close>, \<open>predictions\<close>, \<open>results\<close>, \<open>boxes\<close>, else the payload
  itself when it is an array, else \<^verbatim>\<open>null\<close>, which is a value and not an error. When
  \<open>detections\<close> and \<open>predictions\<close> are both arrays, the array under
  \<open>detections\<close> is returned.
\<close>

theorem getDetections_policy:
  "getDetections r = resolve_policy r
   \<and> (get_prop r ''detections'' = JArray ds \<longrightarrow> get_prop r ''predictions'' = JArray ps \<longrightarrow>
        getDetections r = JArray ds)"
proof -
  have "getDetections r = resolve_policy r"
  proof (cases "truthy r")
    case True
    then show ?thesis
      by (simp add: getDetections_def resolve_policy_def)
  next
    case False
    then have "\<not> isArray r" and "\<And>name. \<not> isArray (get_prop r name)"
      using isArray_truthy isArray_get_prop_truthy by blast+
    with False show ?thesis
      by (simp add: getDetections_def resolve_policy_def)
  qed
  moreover have "getDetections r = JArray ds" if "get_prop r ''detections'' = JArray ds"
  proof -
    have "isArray (get_prop r ''detections'')" using that by simp
    then have "truthy r" by (rule isArray_get_prop_truthy)
    then show ?thesis using that by (simp add: getDetections_def)
  qed
  ultimately show ?thesis by simp
qed

theorem getDetections_policy_witness:
  "get_prop (JObject [(''predictions'', JArray [JNumber 1]), (''detections'', JArray [JNumber 2])]) ''detections'' = JArray [JNumber 2]
   \<and> get_prop (JObject [(''predictions'', JArray [JNumber 1]), (''detections'', JArray [JNumber 2])]) ''predictions'' = JArray [JNumber 1]
   \<and> getDetections (JObject [(''predictions'', JArray [JNumber 1]), (''detections'', JArray [JNumber 2])]) = JArray [JNumber 2]"
  using getDetections_policy [of "JObject [(''predictions'', JArray [JNumber 1]), (''detections'', JArray [JNumber 2])]" "[JNumber 2]" "[JNumber 1]"]
  by (simp add: resolve_policy_def)

subsection \<open>Scaling\<close>

lemma divisorX_pos: "0 < dim_width n \<Longrightarrow> divisorX n = dim_width n"
  by (simp add: divisorX_def js_or_def)

lemma divisorY_pos: "0 < dim_height n \<Longrightarrow> divisorY n = dim_height n"
  by (simp add: divisorY_def js_or_def)

text \<open>
  C3. With positive natural dimensions the scale factors are the rendered dimensions
  divided by the natural ones; \<open>x\<close> and \<open>width\<close> are multiplied by \<open>scaleX\<close>,
  \<open>y\<close> and \<open>height\<close> by \<open>scaleY\<close>. With the factors 2 and 3 the box
  \<open>{x:10, y:5, width:4, height:2}\<close> becomes \<open>{x:20, y:15, width:8, height:6}\<close>.
\<close>

theorem project_scales:
  assumes "0 < dim_width n" and "0 < dim_height n"
  shows "scaleX im n = dim_width im / dim_width n
         \<and> scaleY im n = dim_height im / dim_height n
         \<and> scaledX (project im n box) = map_option (\<lambda>v. v * scaleX im n) (box_x box)
         \<and> scaledY (project im n box) = map_option (\<lambda>v. v * scaleY im n) (box_y box)
         \<and> scaledWidth (project im n box) = map_option (\<lambda>v. v * scaleX im n) (box_width box)
         \<and> scaledHeight (project im n box) = map_option (\<lambda>v. v * scaleY im n) (box_height box)
         \<and> (scaleX im n = 2 \<and> scaleY im n = 3 \<longrightarrow>
              project im n \<lparr>box_x = Some 10, box_y = Some 5, box_width = Some 4, box_height = Some 2,
                            box_label = l, box_confidence = c\<rparr>
              = \<lparr>scaledX = Some 20, scaledY = Some 15, scaledWidth = Some 8, scaledHeight = Some 6\<rparr>)"
proof -
  have sx: "scaleX im n = dim_width im / dim_width n"
    using assms(1) by (simp add: scaleX_def divisorX_pos)
  have sy: "scaleY im n = dim_height im / dim_height n"
    using assms(2) by (simp add: scaleY_def divisorY_pos)
  have t: "\<And>a b. js_times a b = map_option (\<lambda>v. v * b) a"
    by (simp add: js_times_def split: option.split)
  show ?thesis
    using sx sy by (simp add: project_def t)
qed

theorem project_scales_witness:
  "(0::number) < dim_width \<lparr>dim_width = 100, dim_height = 100\<rparr>
   \<and> (0::number) < dim_height \<lparr>dim_width = 100, dim_height = 100\<rparr>
   \<and> scaleX \<lparr>dim_width = 200, dim_height = 300\<rparr> \<lparr>dim_width = 100, dim_height = 100\<rparr> = 2
   \<and> scaleY \<lparr>dim_width = 200, dim_height = 300\<rparr> \<lparr>dim_width = 100, dim_height = 100\<rparr> = 3
   \<and> project \<lparr>dim_width = 200, dim_height = 300\<rparr> \<lparr>dim_width = 100, dim_height = 100\<rparr>
        \<lparr>box_x = Some 10, box_y = Some 5, box_width = Some 4, box_height = Some 2,
         box_label = None, box_confidence = None\<rparr>
      = \<lparr>scaledX = Some 20, scaledY = Some 15, scaledWidth = Some 8, scaledHeight = Some 6\<rparr>"
  using project_scales [of "\<lparr>dim_width = 100, dim_height = 100\<rparr>"
      "\<lparr>dim_width = 200, dim_height = 300\<rparr>" _ None None]
  by simp

text \<open>
  C4. With a natural width of 0 the divisor is 1, never 0, and so the horizontal scale
  factor is the rendered width itself. It is not 1 in general: before the image has
  loaded the natural dimensions are \<open>{0, 0}\<close>, and with a container 640 wide
  \<open>scaleX\<close> is 640.
\<close>

theorem zero_natural_scale_counterexample:
  "dim_width \<lparr>dim_width = 0, dim_height = 0\<rparr> = (0::number)
   \<and> scaleX \<lparr>dim_width = 640, dim_height = 480\<rparr> \<lparr>dim_width = 0, dim_height = 0\<rparr> = 640
   \<and> scaleX \<lparr>dim_width = 640, dim_height = 480\<rparr> \<lparr>dim_width = 0, dim_height = 0\<rparr> \<noteq> 1"
  by (simp add: scaleX_def divisorX_def js_or_def)

text \<open>
  C4, as the code has it: the divisors are never 0; when the natural width is 0 the
  divisor is 1 and \<open>scaleX\<close> is the rendered width, and likewise for the height and
  \<open>scaleY\<close>, whatever the box.
\<close>

theorem zero_natural_divisor:
  "divisorX n \<noteq> 0 \<and> divisorY n \<noteq> 0
   \<and> (dim_width n = 0 \<longrightarrow> divisorX n = 1 \<and> scaleX im n = dim_width im
        \<and> scaledX (project im n box) = js_times (box_x box) (dim_width im)
        \<and> scaledWidth (project im n box) = js_times (box_width box) (dim_width im))
   \<and> (dim_height n = 0 \<longrightarrow> divisorY n = 1 \<and> scaleY im n = dim_height im
        \<and> scaledY (project im n box) = js_times (box_y box) (dim_height im)
        \<and> scaledHeight (project im n box) = js_times (box_height box) (dim_height im))"
  by (simp add: divisorX_def divisorY_def js_or_def scaleX_def scaleY_def project_def)

theorem zero_natural_divisor_witness:
  "dim_width \<lparr>dim_width = 0, dim_height = 0\<rparr> = (0::number)
   \<and> dim_height \<lparr>dim_width = 0, dim_height = 0\<rparr> = (0::number)
   \<and> divisorX \<lparr>dim_width = 0, dim_height = 0\<rparr> = 1
   \<and> divisorY \<lparr>dim_width = 0, dim_height = 0\<rparr> = 1
   \<and> scaleX \<lparr>dim_width = 640, dim_height = 480\<rparr> \<lparr>dim_width = 0, dim_height = 0\<rparr> = 640
   \<and> scaleY \<lparr>dim_width = 640, dim_height = 480\<rparr> \<lparr>dim_width = 0, dim_height = 0\<rparr> = 480"
  using zero_natural_divisor [of "\<lparr>dim_width = 0, dim_height = 0\<rparr>"
      "\<lparr>dim_width = 640, dim_height = 480\<rparr>"]
  by simp


subsection \<open>normalizeBoundingBoxes\<close>

lemma first_present_Cons: "first_present (a # fs) = nullish a (first_present fs)"
  by (cases a) (simp_all add: nullish_def)

lemma nullish_None: "nullish a None = a"
  by (cases a) (simp_all add: nullish_def)

lemma nullish_assoc: "nullish (nullish a b) c = nullish a (nullish b c)"
  by (cases a) (simp_all add: nullish_def)

lemma box_label_normalize:
  "box_label (normalizeBoundingBox d) =
     nullish (d_label d) (nullish (d_class d) (d_class_name d))"
  by (simp add: normalizeBoundingBox_def nullish_assoc split: prod.split)

lemma box_confidence_normalize:
  "box_confidence (normalizeBoundingBox d) = nullish (d_confidence d) (d_score d)"
  by (simp add: normalizeBoundingBox_def split: prod.split)

lemma geometry_normalize_bbox:
  "d_bbox d = Some a \<Longrightarrow> geometry (normalizeBoundingBox d) = destructure4 a"
  by (simp add: geometry_def normalizeBoundingBox_def split: prod.split)

text \<open>
  C1. The coordinates of the normalized box are those of the precedence policy: the first
  of \<open>bbox\<close>, \<open>bounding_box\<close>, \<open>coordinates\<close> that is there is read by position
  and nothing else is looked at; only when all three are missing are the scalar fields
  read, with their defaults. All four coordinates come from the same branch.
\<close>

theorem normalize_box_precedence:
  "geometry (normalizeBoundingBox d) = box_policy d"
  by (simp add: geometry_def normalizeBoundingBox_def box_policy_def destructure4_def
      nullish_def or_default_def split: option.splits)

text \<open>
  C5. The label is the first of \<open>label\<close>, \<open>class\<close>, \<open>class_name\<close> that is there,
  the confidence the first of \<open>confidence\<close>, \<open>score\<close>, and each is missing when none
  is there; a record with \<open>class\<close> and \<open>class_name\<close> and no \<open>label\<close> gets the
  value of \<open>class\<close>.
\<close>

theorem normalize_label_confidence:
  "box_label (normalizeBoundingBox d) = first_present [d_label d, d_class d, d_class_name d]
   \<and> box_confidence (normalizeBoundingBox d) = first_present [d_confidence d, d_score d]
   \<and> box_label (normalizeBoundingBox
         (d\<lparr>d_label := None, d_class := Some c, d_class_name := Some n\<rparr>)) = Some c"
  by (simp add: box_label_normalize box_confidence_normalize first_present_Cons nullish_None)
     (simp add: nullish_def)

text \<open>
  C9. When \<open>bbox\<close> is an array of fewer than four elements, the coordinates are the
  elements that exist, the remaining ones are undefined (not 0), and the scalar fields
  \<open>x\<close>, \<open>y\<close>, \<open>width\<close>, \<open>height\<close>, \<open>w\<close>, \<open>h\<close> of the record have no
  influence. For the empty array all four coordinates are undefined.
\<close>

theorem short_bbox_undefined:
  assumes "d_bbox d = Some a" and "length a < 4"
  shows "geometry (normalizeBoundingBox d) =
           (at_index a 0, at_index a 1, at_index a 2, at_index a 3)
         \<and> (\<forall>k<4. length a \<le> k \<longrightarrow>
               [box_x (normalizeBoundingBox d), box_y (normalizeBoundingBox d),
                box_width (normalizeBoundingBox d), box_height (normalizeBoundingBox d)] ! k
               = None)
         \<and> box_height (normalizeBoundingBox d) = None
         \<and> (a = [] \<longrightarrow> geometry (normalizeBoundingBox d) = (None, None, None, None))
         \<and> geometry (normalizeBoundingBox
               (d\<lparr>d_x := sx, d_y := sy, d_width := swidth, d_height := sheight,
                  d_w := sw, d_h := sh\<rparr>))
             = geometry (normalizeBoundingBox d)"
proof -
  have g: "geometry (normalizeBoundingBox d) = destructure4 a"
    using assms(1) by (rule geometry_normalize_bbox)
  have coords: "box_x (normalizeBoundingBox d) = at_index a 0"
    "box_y (normalizeBoundingBox d) = at_index a 1"
    "box_width (normalizeBoundingBox d) = at_index a 2"
    "box_height (normalizeBoundingBox d) = at_index a 3"
    using g by (simp_all add: geometry_def destructure4_def)
  have missing: "\<forall>k<4. length a \<le> k \<longrightarrow>
      [at_index a 0, at_index a 1, at_index a 2, at_index a 3] ! k = None"
  proof (intro allI impI)
    fix k :: nat
    assume "k < 4" and "length a \<le> k"
    then consider "k = 0" | "k = 1" | "k = 2" | "k = 3"
      by linarith
    then show "[at_index a 0, at_index a 1, at_index a 2, at_index a 3] ! k = None"
      using \<open>length a \<le> k\<close> by cases (simp_all add: at_index_def)
  qed
  have last: "at_index a 3 = None"
    using assms(2) by (simp add: at_index_def)
  have other: "geometry (normalizeBoundingBox
      (d\<lparr>d_x := sx, d_y := sy, d_width := swidth, d_height := sheight,
         d_w := sw, d_h := sh\<rparr>)) = destructure4 a"
    using assms(1) by (simp add: geometry_normalize_bbox)
  show ?thesis
    using g coords missing last other by (simp add: destructure4_def at_index_def)
qed

theorem short_bbox_undefined_witness:
  "d_bbox (empty_detection\<lparr>d_bbox := Some [7, 8], d_x := Some 1, d_w := Some 3\<rparr>) = Some [7, 8]
   \<and> length [7, 8 :: number] < 4
   \<and> geometry (normalizeBoundingBox
         (empty_detection\<lparr>d_bbox := Some [7, 8], d_x := Some 1, d_w := Some 3\<rparr>))
       = (Some 7, Some 8, None, None)"
  using short_bbox_undefined
    [of "empty_detection\<lparr>d_bbox := Some [7, 8], d_x := Some 1, d_w := Some 3\<rparr>" "[7, 8]"]
  by (simp add: at_index_def)

subsection \<open>Colours and label chips\<close>

lemma length_ImageOverlay: "length (ImageOverlay im n (Some ds)) = length ds"
  by (simp add: ImageOverlay_def normalizeBoundingBoxes_def)

lemma nth_ImageOverlay:
  "i < length ds \<Longrightarrow>
   ImageOverlay im n (Some ds) ! i = annotate im n i (normalizeBoundingBox (ds ! i))"
  by (simp add: ImageOverlay_def normalizeBoundingBoxes_def nth_enumerate_eq)

lemma ann_color_annotate: "ann_color (annotate im n i box) = COLORS ! (i mod 5)"
  by (simp add: annotate_def color_at_def length_COLORS)

text \<open>
  C6. The palette has five distinct colours, and the box at position \<open>i\<close> is drawn in
  colour \<open>i mod 5\<close> of it. The colour depends on the position alone: rendering the
  same list again, also with other dimensions, gives each position the same colour, and
  in a list of seven or more boxes positions 0 and 5 have the same colour.
\<close>

theorem palette_cycles:
  "length COLORS = 5 \<and> distinct COLORS
   \<and> length (ImageOverlay im n (Some ds)) = length ds
   \<and> (\<forall>i<length ds.
         ann_color (ImageOverlay im n (Some ds) ! i) = COLORS ! (i mod 5)
         \<and> ann_color (ImageOverlay im' n' (Some ds) ! i)
           = ann_color (ImageOverlay im n (Some ds) ! i))
   \<and> (7 \<le> length ds \<longrightarrow>
         ann_color (ImageOverlay im n (Some ds) ! 0)
         = ann_color (ImageOverlay im n (Some ds) ! 5))"
proof -
  have each: "ann_color (ImageOverlay im0 n0 (Some ds) ! i) = COLORS ! (i mod 5)"
    if "i < length ds" for i im0 n0
    using that by (simp add: nth_ImageOverlay ann_color_annotate)
  have "ann_color (ImageOverlay im n (Some ds) ! 0) = ann_color (ImageOverlay im n (Some ds) ! 5)"
    if "7 \<le> length ds"
  proof -
    have "0 < length ds" and "5 < length ds"
      using that by auto
    then show ?thesis
      by (simp add: each)
  qed
  then show ?thesis
    by (simp add: length_COLORS distinct_COLORS length_ImageOverlay each)
qed

theorem palette_cycles_witness:
  "7 \<le> length (replicate 7 empty_detection)
   \<and> ann_color (ImageOverlay \<lparr>dim_width = 640, dim_height = 480\<rparr>
         \<lparr>dim_width = 320, dim_height = 240\<rparr> (Some (replicate 7 empty_detection)) ! 0)
       = ''hsl(25, 100%, 50%)''
   \<and> ann_color (ImageOverlay \<lparr>dim_width = 640, dim_height = 480\<rparr>
         \<lparr>dim_width = 320, dim_height = 240\<rparr> (Some (replicate 7 empty_detection)) ! 5)
       = ''hsl(25, 100%, 50%)''
   \<and> ann_color (ImageOverlay \<lparr>dim_width = 640, dim_height = 480\<rparr>
         \<lparr>dim_width = 320, dim_height = 240\<rparr> (Some (replicate 7 empty_detection)) ! 6)
       = ''hsl(142, 76%, 45%)''"
proof -
  have len: "length (replicate 7 empty_detection) = 7"
    by simp
  note t = palette_cycles [of "\<lparr>dim_width = 640, dim_height = 480\<rparr>"
      "\<lparr>dim_width = 320, dim_height = 240\<rparr>" "replicate 7 empty_detection"]
  from t have c: "\<forall>i<7. ann_color (ImageOverlay \<lparr>dim_width = 640, dim_height = 480\<rparr>
         \<lparr>dim_width = 320, dim_height = 240\<rparr> (Some (replicate 7 empty_detection)) ! i)
       = COLORS ! (i mod 5)"
    unfolding len by blast
  have "ann_color (ImageOverlay \<lparr>dim_width = 640, dim_height = 480\<rparr>
         \<lparr>dim_width = 320, dim_height = 240\<rparr> (Some (replicate 7 empty_detection)) ! 0)
       = COLORS ! (0 mod 5)"
    using c by simp
  moreover have "ann_color (ImageOverlay \<lparr>dim_width = 640, dim_height = 480\<rparr>
         \<lparr>dim_width = 320, dim_height = 240\<rparr> (Some (replicate 7 empty_detection)) ! 5)
       = COLORS ! (5 mod 5)"
    using c by simp
  moreover have "ann_color (ImageOverlay \<lparr>dim_width = 640, dim_height = 480\<rparr>
         \<lparr>dim_width = 320, dim_height = 240\<rparr> (Some (replicate 7 empty_detection)) ! 6)
       = COLORS ! (6 mod 5)"
    using c by simp
  ultimately show ?thesis
    by (simp add: COLORS_def)
qed

lemma ann_chip_annotate:
  "ann_chip (annotate im n index box) = (if chip_shown box then Some (chip_of index box) else None)"
  by (simp add: annotate_def)

text \<open>
  C10. A box gets a label chip exactly when its label is a non-empty string or its
  confidence is defined. With confidence 0 and no label the chip reads
  \<open>Detection {i+1} 0%\<close>; with the empty string as label and no confidence there is no
  chip.
\<close>

theorem chip_condition:
  "(ann_chip (annotate im n index box) \<noteq> None)
     = ((\<exists>l. box_label box = Some l \<and> l \<noteq> []) \<or> box_confidence box \<noteq> None)
   \<and> (box_label box = None \<and> box_confidence box = Some 0 \<longrightarrow>
        map_option chip_text (ann_chip (annotate im n index box))
        = Some (''Detection '' @ string_of_nat (index + 1) @ '' 0%''))
   \<and> (box_label box = Some [] \<and> box_confidence box = None \<longrightarrow>
        ann_chip (annotate im n index box) = None)"
proof -
  have z: "toFixed0 0 = ''0''"
    by (simp add: toFixed0_def string_of_nat.simps digit_def)
  show ?thesis
    by (auto simp add: ann_chip_annotate chip_shown_def chip_of_def z split: option.splits)
qed

theorem chip_condition_witness:
  "box_label \<lparr>box_x = Some 1, box_y = Some 1, box_width = Some 2, box_height = Some 2,
      box_label = None, box_confidence = Some 0\<rparr> = None
   \<and> box_confidence \<lparr>box_x = Some 1, box_y = Some 1, box_width = Some 2, box_height = Some 2,
      box_label = None, box_confidence = Some 0\<rparr> = Some 0
   \<and> map_option chip_text (ann_chip (annotate \<lparr>dim_width = 640, dim_height = 480\<rparr>
        \<lparr>dim_width = 320, dim_height = 240\<rparr> 0
        \<lparr>box_x = Some 1, box_y = Some 1, box_width = Some 2, box_height = Some 2,
         box_label = None, box_confidence = Some 0\<rparr>))
     = Some ''Detection 1 0%''"
  using chip_condition [of "\<lparr>dim_width = 640, dim_height = 480\<rparr>"
      "\<lparr>dim_width = 320, dim_height = 240\<rparr>" 0
      "\<lparr>box_x = Some 1, box_y = Some 1, box_width = Some 2, box_height = Some 2,
        box_label = None, box_confidence = Some 0\<rparr>"]
  by (simp add: string_of_nat.simps digit_def)


subsection \<open>The upload pipeline\<close>

lemma try_block_not_ok:
  "\<not> res_ok res \<Longrightarrow>
   try_block (Resolved res) =
     Inl (case res_text res of
            Inl e \<Rightarrow> e
          | Inr errorText \<Rightarrow>
              Error (''HTTP '' @ string_of_nat (res_status res) @ '': '' @ errorText))"
  by (simp add: try_block_def split: sum.split)

lemma settle_not_ok:
  "\<not> res_ok res \<Longrightarrow>
   handleImageUpload_settle (Resolved res) s =
     s\<lparr>error := Some (failure_message res), isAnalyzing := False, pending := pending s - 1\<rparr>"
  by (simp add: handleImageUpload_settle_def try_block_not_ok failure_message_def message_of_def
      split: sum.split)

lemma start_uploading: "pipeline_state (handleImageUpload_start file s) = Uploading"
  by (simp add: handleImageUpload_start_def createObjectURL_def pipeline_state_def)

text \<open>
  C7. After \<^verbatim>\<open>handleImageUpload\<close> has started, the pipeline is uploading. When the
  request settles with a response whose status is not a success status, the pipeline is
  failed, from whatever state, and no response is stored, whatever the body. The message
  is \<open>HTTP\<close>, the status code, a colon and the body text, so it contains both; status
  500 with the body \<open>model error\<close> leaves \<open>HTTP 500: model error\<close>.
\<close>

theorem http_failure_fails:
  assumes "\<not> res_ok res"
  shows "pipeline_state (handleImageUpload_start file s) = Uploading
         \<and> pipeline_state (handleImageUpload_settle (Resolved res) s) = Failed (failure_message res)
         \<and> response (handleImageUpload_settle (Resolved res) s) = response s
         \<and> pipeline_state (handleImageUpload_settle (Resolved res) (handleImageUpload_start file s))
             = Failed (failure_message res)
         \<and> response (handleImageUpload_settle (Resolved res) (handleImageUpload_start file s)) = JNull
         \<and> (\<forall>body. res_text res = Inr body \<longrightarrow>
               failure_message res = ''HTTP '' @ string_of_nat (res_status res) @ '': '' @ body
               \<and> sublist (string_of_nat (res_status res)) (failure_message res)
               \<and> sublist body (failure_message res))
         \<and> (res_status res = 500 \<and> res_text res = Inr ''model error'' \<longrightarrow>
               failure_message res = ''HTTP 500: model error''
               \<and> sublist ''500'' (failure_message res)
               \<and> sublist ''model error'' (failure_message res))"
proof -
  have st: "string_of_nat 500 = ''500''"
    by (simp add: string_of_nat.simps digit_def)
  have a: "pipeline_state (handleImageUpload_settle (Resolved res) s0) = Failed (failure_message res)"
    for s0
    using assms by (simp add: settle_not_ok pipeline_state_def)
  have b: "response (handleImageUpload_settle (Resolved res) s0) = response s0" for s0
    using assms by (simp add: settle_not_ok)
  have c: "response (handleImageUpload_start file s) = JNull"
    by (simp add: handleImageUpload_start_def createObjectURL_def)
  have d: "failure_message res = ''HTTP '' @ string_of_nat (res_status res) @ '': '' @ body
      \<and> sublist (string_of_nat (res_status res)) (failure_message res)
      \<and> sublist body (failure_message res)" if "res_text res = Inr body" for body
  proof -
    have m: "failure_message res = ''HTTP '' @ string_of_nat (res_status res) @ ('': '' @ body)"
      using that by (simp add: failure_message_def)
    have "sublist (string_of_nat (res_status res)) (failure_message res)"
      unfolding m by (rule sublist_appendI)
    moreover have "sublist body (failure_message res)"
    proof -
      have "failure_message res = (''HTTP '' @ string_of_nat (res_status res) @ '': '') @ body"
        using m by simp
      then show ?thesis
        by (metis sublist_append_leftI)
    qed
    ultimately show ?thesis using m by simp
  qed
  have e: "failure_message res = ''HTTP 500: model error''
      \<and> sublist ''500'' (failure_message res)
      \<and> sublist ''model error'' (failure_message res)"
    if "res_status res = 500" and "res_text res = Inr ''model error''"
  proof -
    from d [OF that(2)] have "sublist (string_of_nat (res_status res)) (failure_message res)"
      and "sublist ''model error'' (failure_message res)"
      and "failure_message res = ''HTTP '' @ string_of_nat (res_status res) @ '': '' @ ''model error''"
      by blast+
    then show ?thesis
      unfolding that(1) st by simp
  qed
  have b': "response (handleImageUpload_settle (Resolved res) (handleImageUpload_start file s))
      = JNull"
    using b c by simp
  have d': "\<forall>body. res_text res = Inr body \<longrightarrow>
      failure_message res = ''HTTP '' @ string_of_nat (res_status res) @ '': '' @ body
      \<and> sublist (string_of_nat (res_status res)) (failure_message res)
      \<and> sublist body (failure_message res)"
    using d by blast
  have e': "res_status res = 500 \<and> res_text res = Inr ''model error'' \<longrightarrow>
      failure_message res = ''HTTP 500: model error''
      \<and> sublist ''500'' (failure_message res)
      \<and> sublist ''model error'' (failure_message res)"
    using e by blast
  from start_uploading a b a b' d' e' show ?thesis
    by (intro conjI)
qed


theorem http_failure_fails_witness:
  "\<not> res_ok \<lparr>res_status = 500, res_text = Inr ''model error'',
              res_json = Inl (Error ''Unexpected token'')\<rparr>
   \<and> pipeline_state (handleImageUpload_start (File ''imageB'') initial) = Uploading
   \<and> pipeline_state
        (handleImageUpload_settle
           (Resolved \<lparr>res_status = 500, res_text = Inr ''model error'',
                       res_json = Inl (Error ''Unexpected token'')\<rparr>)
           (handleImageUpload_start (File ''imageB'') initial))
      = Failed ''HTTP 500: model error''
   \<and> sublist ''500'' ''HTTP 500: model error''
   \<and> sublist ''model error'' ''HTTP 500: model error''"
proof -
  let ?R = "\<lparr>res_status = 500, res_text = Inr ''model error'',
             res_json = Inl (Error ''Unexpected token'')\<rparr>"
  have n: "\<not> res_ok ?R"
    by (simp add: res_ok_def)
  note t = http_failure_fails [OF n, of "File ''imageB''" initial]
  have up: "pipeline_state (handleImageUpload_start (File ''imageB'') initial) = Uploading"
    using t by blast
  have failed: "pipeline_state
      (handleImageUpload_settle (Resolved ?R) (handleImageUpload_start (File ''imageB'') initial))
      = Failed (failure_message ?R)"
    using t by blast
  have imp: "res_status ?R = 500 \<and> res_text ?R = Inr ''model error'' \<longrightarrow>
      failure_message ?R = ''HTTP 500: model error''
      \<and> sublist ''500'' (failure_message ?R)
      \<and> sublist ''model error'' (failure_message ?R)"
    using t by blast
  have msg: "failure_message ?R = ''HTTP 500: model error''
      \<and> sublist ''500'' (failure_message ?R)
      \<and> sublist ''model error'' (failure_message ?R)"
    by (rule mp [OF imp]) simp
  then have m: "failure_message ?R = ''HTTP 500: model error''"
    by (rule conjunct1)
  show ?thesis
    using n up failed msg unfolding m by blast
qed


lemma only_preview_live_initial: "only_preview_live initial"
  by (simp add: only_preview_live_def initial_def)

lemma only_preview_live_start:
  "previewUrl s = None \<Longrightarrow> only_preview_live s \<Longrightarrow>
   only_preview_live (handleImageUpload_start f s)"
  by (simp add: only_preview_live_def handleImageUpload_start_def createObjectURL_def)

lemma url_settle:
  "url_live (handleImageUpload_settle r s) = url_live s
   \<and> previewUrl (handleImageUpload_settle r s) = previewUrl s"
  by (simp add: handleImageUpload_settle_def split: sum.split)

lemma only_preview_live_settle:
  "only_preview_live s \<Longrightarrow> only_preview_live (handleImageUpload_settle r s)"
  by (simp add: only_preview_live_def url_settle)

lemma handleClear_releases:
  "previewUrl (handleClear s) = None
   \<and> url_live (handleClear s) = url_live s - set_option (previewUrl s)"
  by (cases "previewUrl s") (simp_all add: handleClear_def revokeObjectURL_def)

lemma only_preview_live_clear: "only_preview_live s \<Longrightarrow> only_preview_live (handleClear s)"
  by (auto simp add: only_preview_live_def handleClear_releases)

lemma only_preview_live_fire:
  "enabled s e \<Longrightarrow> only_preview_live s \<Longrightarrow> only_preview_live (fire e s)"
  by (cases e)
     (simp_all add: only_preview_live_start only_preview_live_settle only_preview_live_clear)

lemma only_preview_live_run:
  "run s es = Some s' \<Longrightarrow> only_preview_live s \<Longrightarrow> only_preview_live s'"
proof (induction es arbitrary: s)
  case Nil
  then show ?case by simp
next
  case (Cons e es)
  from Cons.prems(1) have en: "enabled s e" and rest: "run (fire e s) es = Some s'"
    by (simp_all split: if_splits)
  from en Cons.prems(2) have "only_preview_live (fire e s)"
    by (rule only_preview_live_fire)
  with rest show ?case
    by (rule Cons.IH)
qed

text \<open>
  C8. \<^verbatim>\<open>handleClear\<close> revokes the preview it holds. In every state the rendered
  page can reach, the registered object URLs are at most the displayed preview; and
  whenever an event makes a held preview stop being the displayed one, that preview has
  been revoked. (\<^verbatim>\<open>handleImageUpload\<close> revokes nothing itself: a file can be
  submitted only when no URL is registered, so there is nothing for it to supersede.)
\<close>

theorem preview_released:
  "(previewUrl s = Some u \<longrightarrow>
      previewUrl (handleClear s) = None \<and> u \<notin> url_live (handleClear s))
   \<and> (run initial es = Some s' \<longrightarrow>
        url_live s' \<subseteq> set_option (previewUrl s')
        \<and> (enabled s' (Upload f) \<longrightarrow> url_live s' = {})
        \<and> (\<forall>e v. enabled s' e \<and> previewUrl s' = Some v \<and> previewUrl (fire e s') \<noteq> Some v
              \<longrightarrow> v \<notin> url_live (fire e s')))"
proof -
  have clear: "previewUrl (handleClear s) = None \<and> u \<notin> url_live (handleClear s)"
    if "previewUrl s = Some u"
    using that by (simp add: handleClear_releases)
  have reach: "url_live s' \<subseteq> set_option (previewUrl s')
      \<and> (enabled s' (Upload f) \<longrightarrow> url_live s' = {})
      \<and> (\<forall>e v. enabled s' e \<and> previewUrl s' = Some v \<and> previewUrl (fire e s') \<noteq> Some v
            \<longrightarrow> v \<notin> url_live (fire e s'))"
    if r: "run initial es = Some s'"
  proof -
    have i: "only_preview_live s'"
      using r only_preview_live_initial by (rule only_preview_live_run)
    have "v \<notin> url_live (fire e s')"
      if "enabled s' e" and "previewUrl (fire e s') \<noteq> Some v" for e v
    proof -
      have "only_preview_live (fire e s')"
        using that(1) i by (rule only_preview_live_fire)
      then show ?thesis
        using that(2) by (auto simp add: only_preview_live_def)
    qed
    then show ?thesis
      using i by (auto simp add: only_preview_live_def)
  qed
  show ?thesis
    using clear reach by blast
qed

theorem preview_released_witness:
  "run initial
     [Upload (File ''a''),
      Settle (Resolved \<lparr>res_status = 200, res_text = Inr [], res_json = Inr (JObject [])\<rparr>),
      Clear,
      Upload (File ''b'')]
   = Some \<lparr>imageFile = Some (File ''b''), previewUrl = Some 1, isAnalyzing = True,
            response = JNull, error = None, url_next = 2, url_live = {1}, pending = 1\<rparr>
   \<and> url_live \<lparr>imageFile = Some (File ''b''), previewUrl = Some 1, isAnalyzing = True,
            response = JNull, error = None, url_next = 2, url_live = {1}, pending = 1\<rparr>
       \<subseteq> set_option (previewUrl \<lparr>imageFile = Some (File ''b''), previewUrl = Some 1,
            isAnalyzing = True, response = JNull, error = None, url_next = 2, url_live = {1},
            pending = 1\<rparr>)"
proof -
  have r: "run initial
     [Upload (File ''a''),
      Settle (Resolved \<lparr>res_status = 200, res_text = Inr [], res_json = Inr (JObject [])\<rparr>),
      Clear,
      Upload (File ''b'')]
   = Some \<lparr>imageFile = Some (File ''b''), previewUrl = Some 1, isAnalyzing = True,
            response = JNull, error = None, url_next = 2, url_live = {1}, pending = 1\<rparr>"
    by (simp add: initial_def handleImageUpload_start_def createObjectURL_def
        handleImageUpload_settle_def try_block_def res_ok_def handleClear_def
        revokeObjectURL_def)
  show ?thesis
    using r preview_released [of _ _ "[Upload (File ''a''),
      Settle (Resolved \<lparr>res_status = 200, res_text = Inr [], res_json = Inr (JObject [])\<rparr>),
      Clear,
      Upload (File ''b'')]"]
    by blast
qed

end
